theory Spec2Isabelle
  imports Main "HOL-Library.AList"
begin

section \<open>JavaScript values\<close>

text \<open>
  The connectors are JavaScript. Their data are numbers, strings, \<open>null\<close>,
  \<open>undefined\<close> and plain objects (the search state is a tree of plain objects with
  string leaves). Numbers are modelled on the integers, extended by the two infinities and
  \<open>NaN\<close>, which is what the code under study produces from integer bounds
  (\<open>parseInt\<close>, \<open>Number\<close>, \<open>Number.NEGATIVE_INFINITY\<close>); fractions and the
  rounding of doubles beyond \<open>2^53\<close> are outside the model.
\<close>

datatype jsnum = NaN | NegInf | Fin int | PosInf

text \<open>
  An object is the list of its own properties in insertion order; a key is looked up with
  \<open>map_of\<close>, written with \<open>AList.update\<close> and removed with \<open>AList.delete\<close>.
\<close>

datatype jsval =
    JUndefined
  | JNull
  | JBool bool
  | JNum jsnum
  | JStr string
  | JObj "(string \<times> jsval) list"

text \<open>The exceptions that can be raised: a TypeError by the connectors, on reading a
  property of \<open>undefined\<close> or \<open>null\<close> or calling something that is not a function;
  and the \<open>Error\<close> that the query-parameters builder throws for a facet that was not
  declared.\<close>

datatype error = TypeError | Error

text \<open>The comparison operators \<open><\<close> and \<open>></\<close> on numbers: every comparison with
  \<open>NaN\<close> is false.\<close>

fun js_lt :: "jsnum \<Rightarrow> jsnum \<Rightarrow> bool" where
  "js_lt NaN _ = False"
| "js_lt _ NaN = False"
| "js_lt _ NegInf = False"
| "js_lt NegInf _ = True"
| "js_lt PosInf _ = False"
| "js_lt (Fin a) PosInf = True"
| "js_lt (Fin a) (Fin b) = (a < b)"

definition js_gt :: "jsnum \<Rightarrow> jsnum \<Rightarrow> bool" where
  "js_gt a b = js_lt b a"

text \<open>Truthiness, as tested by \<open>x ? a : b\<close>, \<open>if (x)\<close>, \<open>x || y\<close> and \<open>Boolean(x)\<close>.\<close>

fun truthy :: "jsval \<Rightarrow> bool" where
  "truthy JUndefined = False"
| "truthy JNull = False"
| "truthy (JBool b) = b"
| "truthy (JNum n) = (n \<noteq> NaN \<and> n \<noteq> Fin 0)"
| "truthy (JStr s) = (s \<noteq> [])"
| "truthy (JObj _) = True"

subsection \<open>Numbers and strings\<close>

definition digit_char :: "nat \<Rightarrow> char" where
  "digit_char d = ''0123456789'' ! d"

definition is_digit :: "char \<Rightarrow> bool" where
  "is_digit c = (c \<in> set ''0123456789'')"

text \<open>The value of a decimal digit is its position in \<open>0123456789\<close>.\<close>

definition digit_val :: "char \<Rightarrow> nat" where
  "digit_val c = length (takeWhile (\<lambda>d. d \<noteq> c) ''0123456789'')"

text \<open>The decimal digits of a natural number, most significant first.\<close>

fun nat_digits :: "nat \<Rightarrow> string" where
  "nat_digits n =
     (if n < 10 then [digit_char n] else nat_digits (n div 10) @ [digit_char (n mod 10)])"

declare nat_digits.simps [simp del]

definition digits_to_nat :: "string \<Rightarrow> nat" where
  "digits_to_nat ds = foldl (\<lambda>acc c. 10 * acc + digit_val c) 0 ds"

text \<open>
  The string of a number, as a template literal \<open>`${n}`\<close> produces it. For an integer
  this is its decimal notation as long as its magnitude is below \<open>10^21\<close> (JavaScript
  switches to exponent notation from there on).
\<close>

fun num_to_string :: "jsnum \<Rightarrow> string" where
  "num_to_string NaN = ''NaN''"
| "num_to_string PosInf = ''Infinity''"
| "num_to_string NegInf = ''-Infinity''"
| "num_to_string (Fin i) =
     (if i < 0 then CHR ''-'' # nat_digits (nat (- i)) else nat_digits (nat i))"

fun to_string :: "jsval \<Rightarrow> string" where
  "to_string JUndefined = ''undefined''"
| "to_string JNull = ''null''"
| "to_string (JBool b) = (if b then ''true'' else ''false'')"
| "to_string (JNum n) = num_to_string n"
| "to_string (JStr s) = s"
| "to_string (JObj _) = ''[object Object]''"

text \<open>White space as \<open>parseInt\<close> and \<open>Number\<close> skip it (the ASCII part of it).\<close>

definition is_ws :: "char \<Rightarrow> bool" where
  "is_ws c = (c \<in> set [CHR '' '', CHR 0x09, CHR 0x0A, CHR 0x0B, CHR 0x0C, CHR 0x0D])"

definition split_sign :: "string \<Rightarrow> bool \<times> string" where
  "split_sign s =
     (case s of
        [] \<Rightarrow> (False, [])
      | c # r \<Rightarrow> if c = CHR ''-'' then (True, r) else if c = CHR ''+'' then (False, r)
                 else (False, s))"

definition signed :: "bool \<Rightarrow> nat \<Rightarrow> jsnum" where
  "signed neg n = Fin (if neg then - int n else int n)"

text \<open>
  \<open>parseInt(s, 10)\<close>: leading white space is skipped, a sign is read, then the longest
  run of decimal digits; no digit at all gives \<open>NaN\<close>.
\<close>

definition parseInt :: "string \<Rightarrow> jsnum" where
  "parseInt s =
     (let (neg, r) = split_sign (dropWhile is_ws s);
          ds = takeWhile is_digit r
      in if ds = [] then NaN else signed neg (digits_to_nat ds))"

definition trim :: "string \<Rightarrow> string" where
  "trim s = rev (dropWhile is_ws (rev (dropWhile is_ws s)))"

text \<open>
  \<open>Number(s)\<close> of a string: the empty (or blank) string is \<open>0\<close>, a signed run of
  decimal digits is that integer, \<open>Infinity\<close> is itself. Every other string is
  \<open>NaN\<close> here; JavaScript also reads fractions, exponents and radix prefixes, which do
  not occur in the encodings of integer bounds.
\<close>

definition str_to_number :: "string \<Rightarrow> jsnum" where
  "str_to_number s =
     (let t = trim s in
      if t = [] then Fin 0
      else if t = ''Infinity'' \<or> t = ''+Infinity'' then PosInf
      else if t = ''-Infinity'' then NegInf
      else (let (neg, ds) = split_sign t
            in if ds \<noteq> [] \<and> list_all is_digit ds then signed neg (digits_to_nat ds)
               else NaN))"

text \<open>\<open>Number(x)\<close> where \<open>x\<close> is an element of an array of strings, \<open>undefined\<close>
  when the index is out of range: \<open>Number(undefined)\<close> is \<open>NaN\<close>.\<close>

definition to_number :: "string option \<Rightarrow> jsnum" where
  "to_number x = (case x of None \<Rightarrow> NaN | Some s \<Rightarrow> str_to_number s)"

text \<open>\<open>s.split(c)\<close> for a one-character separator; the empty string splits into one
  empty piece.\<close>

fun split_on :: "char \<Rightarrow> string \<Rightarrow> string list" where
  "split_on c [] = [[]]"
| "split_on c (x # xs) =
     (if x = c then [] # split_on c xs
      else (case split_on c xs of [] \<Rightarrow> [[x]] | w # ws \<Rightarrow> (x # w) # ws))"

text \<open>\<open>xs[i]\<close> on an array: \<open>undefined\<close> (here \<open>None\<close>) out of range.\<close>

definition at :: "'a list \<Rightarrow> nat \<Rightarrow> 'a option" where
  "at xs i = (if i < length xs then Some (xs ! i) else None)"

section \<open>The multi-range connector\<close>

subsection \<open>Refinement codec\<close>

record item =
  item_label :: jsval
  item_start :: jsval
  item_end :: jsval

record range =
  range_start :: jsval
  range_end :: jsval

text \<open>
  \<^verbatim>\<open>
  function stringifyItem(item) {
    if (typeof item.start === 'undefined' && typeof item.end === 'undefined') {
      return '';
    }
    return `${item.start ? item.start : ''}:${item.end ? item.end : ''}`;
  }
  \<close>
\<close>

definition stringifyItem :: "item \<Rightarrow> string" where
  "stringifyItem item =
     (if item_start item = JUndefined \<and> item_end item = JUndefined then ''''
      else (if truthy (item_start item) then to_string (item_start item) else '''')
           @ '':''
           @ (if truthy (item_end item) then to_string (item_end item) else ''''))"

text \<open>
  \<^verbatim>\<open>
  function parseItem(value) {
    if (value.length === 0) {
      return {start: null, end: null};
    }
    const [startStr, endStr] = value.split(':');
    return {
      start: startStr.length > 0 ? parseInt(startStr, 10) : null,
      end: endStr.length > 0 ? parseInt(endStr, 10) : null,
    };
  }
  \<close>
  The destructuring leaves \<open>endStr\<close> undefined when the string has no separator, and
  \<open>endStr.length\<close> then raises a TypeError.
\<close>

definition parseItem :: "string \<Rightarrow> error + range" where
  "parseItem value =
     (if length value = 0 then Inr \<lparr>range_start = JNull, range_end = JNull\<rparr>
      else (let parts = split_on CHR '':'' value in
            case at parts 0 of
              None \<Rightarrow> Inl TypeError
            | Some startStr \<Rightarrow>
                (case at parts 1 of
                   None \<Rightarrow> Inl TypeError
                 | Some endStr \<Rightarrow>
                     Inr \<lparr>range_start =
                            (if length startStr > 0 then JNum (parseInt startStr) else JNull),
                          range_end =
                            (if length endStr > 0 then JNum (parseInt endStr) else JNull)\<rparr>)))"

subsection \<open>Overlap evaluator\<close>

record stats =
  stats_min :: jsnum
  stats_max :: jsnum

text \<open>
  The search results of one index are an external object. The connector calls two of its
  accessors: \<open>getFacetByName\<close>, of which it only tests the truthiness of the result, and
  \<open>getFacetStats\<close>, which returns the statistics or \<open>undefined\<close>.
\<close>

record results =
  getFacetByName :: "string \<Rightarrow> bool"
  getFacetStats :: "string \<Rightarrow> stats option"

definition isRefinementsRangeIncludesInsideItemRange :: "stats \<Rightarrow> jsnum \<Rightarrow> jsnum \<Rightarrow> bool" where
  "isRefinementsRangeIncludesInsideItemRange st start end' =
     (js_gt (stats_min st) start \<and> js_lt (stats_min st) end'
      \<or> js_gt (stats_max st) start \<and> js_lt (stats_max st) end')"

definition isItemRangeIncludedInsideRefinementsRange :: "stats \<Rightarrow> jsnum \<Rightarrow> jsnum \<Rightarrow> bool" where
  "isItemRangeIncludedInsideRefinementsRange st start end' =
     (js_gt start (stats_min st) \<and> js_lt start (stats_max st)
      \<or> js_gt end' (stats_min st) \<and> js_lt end' (stats_max st))"

text \<open>
  \<^verbatim>\<open>
  function itemHasRefinement(attributeName, results, value) {
    const stats = results.getFacetByName(attributeName) ?
          results.getFacetStats(attributeName) : null;
    const range = value.split(':');
    const start = Number(range[0]) === 0 || value === '' ? Number.NEGATIVE_INFINITY : Number(range[0]);
    const end = Number(range[1]) === 0 || value === '' ? Number.POSITIVE_INFINITY : Number(range[1]);
    return !(Boolean(stats) &&
          (isRefinementsRangeIncludesInsideItemRange(stats, start, end)
         || isItemRangeIncludedInsideRefinementsRange(stats, start, end)));
  }
  \<close>
  The result is negated: the function returns \<open>true\<close> when the bucket has \<^emph>\<open>no\<close>
  overlap with the statistics, and its only caller stores it in the \<open>noRefinement\<close> field
  of the item.
\<close>

definition itemHasRefinement :: "string \<Rightarrow> results \<Rightarrow> string \<Rightarrow> bool" where
  "itemHasRefinement attributeName res value =
     (let st = (if getFacetByName res attributeName then getFacetStats res attributeName
                else None);
          rng = split_on CHR '':'' value;
          start = (if to_number (at rng 0) = Fin 0 \<or> value = '''' then NegInf
                   else to_number (at rng 0));
          end' = (if to_number (at rng 1) = Fin 0 \<or> value = '''' then PosInf
                  else to_number (at rng 1))
      in \<not> (case st of
               None \<Rightarrow> False
             | Some s \<Rightarrow> isRefinementsRangeIncludesInsideItemRange s start end'
                         \<or> isItemRangeIncludedInsideRefinementsRange s start end'))"

section \<open>Objects and the lodash helpers\<close>

text \<open>
  The search state is a tree of plain objects. Its leaves are primitives, which are taken
  to have no properties of their own (the characters and the length of a string leaf, and
  what prototypes provide, are not modelled).
\<close>

definition thenE :: "error + 'a \<Rightarrow> ('a \<Rightarrow> error + 'b) \<Rightarrow> error + 'b" where
  "thenE m f = (case m of Inl e \<Rightarrow> Inl e | Inr v \<Rightarrow> f v)"

text \<open>\<open>o[k]\<close>: a TypeError on \<open>undefined\<close> and \<open>null\<close>, \<open>undefined\<close> for a
  missing property.\<close>

fun get_prop :: "jsval \<Rightarrow> string \<Rightarrow> error + jsval" where
  "get_prop JUndefined k = Inl TypeError"
| "get_prop JNull k = Inl TypeError"
| "get_prop (JObj kvs) k = Inr (case map_of kvs k of None \<Rightarrow> JUndefined | Some v \<Rightarrow> v)"
| "get_prop _ k = Inr JUndefined"

text \<open>The own properties that an object spread \<open>{...o}\<close> copies; spreading
  \<open>undefined\<close> or \<open>null\<close> copies nothing.\<close>

fun own_props :: "jsval \<Rightarrow> (string \<times> jsval) list" where
  "own_props (JObj kvs) = kvs"
| "own_props _ = []"

text \<open>Writing properties one after the other, as an object literal does: a key that is
  already there keeps its place and takes the new value.\<close>

definition assign :: "(string \<times> jsval) list \<Rightarrow> (string \<times> jsval) list \<Rightarrow> (string \<times> jsval) list" where
  "assign kvs new = foldl (\<lambda>acc (k, v). AList.update k v acc) kvs new"

text \<open>
  lodash \<open>castPath(path, object)\<close> for a string path: the string is one key when it has
  no dot or when the object has a property of that very name, and is split at its dots
  otherwise. (Bracket syntax such as \<open>a[0]\<close> is not modelled.)
\<close>

definition castPath :: "string \<Rightarrow> jsval \<Rightarrow> string list" where
  "castPath p obj =
     (if p \<in> fst ` set (own_props obj) then [p] else split_on CHR ''.'' p)"

text \<open>lodash \<open>has\<close>, on a path that is already an array of keys: every key along the
  path is an own property.\<close>

fun has_path :: "jsval \<Rightarrow> string list \<Rightarrow> bool" where
  "has_path obj [] = False"
| "has_path obj (k # ks) =
     (case obj of
        JObj kvs \<Rightarrow>
          (case map_of kvs k of
             None \<Rightarrow> False
           | Some v \<Rightarrow> ks = [] \<or> has_path v ks)
      | _ \<Rightarrow> False)"

text \<open>lodash \<open>has\<close> on a string path.\<close>

definition has_str :: "jsval \<Rightarrow> string \<Rightarrow> bool" where
  "has_str obj p = has_path obj (castPath p obj)"

text \<open>
  lodash \<open>baseUnset\<close>: the property named by the last key is deleted from the object that
  the keys before it lead to, if there is one. The function is the tree after the deletion:
  for \<open>unset\<close> that is the object passed in, which is changed in place; \<open>omit\<close> applies
  it to a copy. (With an empty path lodash deletes the key \<open>undefined\<close>.)
\<close>

fun unset_path :: "jsval \<Rightarrow> string list \<Rightarrow> jsval" where
  "unset_path obj [] =
     (case obj of JObj kvs \<Rightarrow> JObj (AList.delete ''undefined'' kvs) | _ \<Rightarrow> obj)"
| "unset_path obj (k # ks) =
     (case obj of
        JObj kvs \<Rightarrow>
          (if ks = [] then JObj (AList.delete k kvs)
           else (case map_of kvs k of
                   None \<Rightarrow> obj
                 | Some v \<Rightarrow> JObj (AList.update k (unset_path v ks) kvs)))
      | _ \<Rightarrow> obj)"

text \<open>lodash \<open>omit(object, path)\<close> (4.17, which takes deep paths): a copy of the object
  without the property at the path; \<open>{}\<close> for \<open>undefined\<close> and \<open>null\<close>.\<close>

definition omit :: "jsval \<Rightarrow> string \<Rightarrow> jsval" where
  "omit obj p = unset_path (JObj (own_props obj)) (castPath p obj)"

text \<open>lodash \<open>isEmpty\<close>.\<close>

fun isEmpty :: "jsval \<Rightarrow> bool" where
  "isEmpty (JObj kvs) = (kvs = [])"
| "isEmpty (JStr s) = (s = [])"
| "isEmpty _ = True"

text \<open>
  The context that the connector wrapper binds to \<open>this\<close>: the main index, and the
  targeted index when the widget sits under a multi-index component.
\<close>

record ctx =
  mainTargettedIndex :: string
  multiIndexContext :: "string option"

text \<open>
  \<^verbatim>\<open>
  function getIndex(context) {
    return context && context.multiIndexContext ? context.multiIndexContext.targettedIndex : context.ais.mainTargettedIndex;
  }
  function hasMultipleIndex(context) {
    return context && context.multiIndexContext;
  }
  \<close>
\<close>

definition getIndex :: "ctx \<Rightarrow> string" where
  "getIndex ctx = (case multiIndexContext ctx of Some t \<Rightarrow> t | None \<Rightarrow> mainTargettedIndex ctx)"

definition hasMultipleIndex :: "ctx \<Rightarrow> bool" where
  "hasMultipleIndex ctx = (multiIndexContext ctx \<noteq> None)"





section \<open>The multi-range connector: search state\<close>

text \<open>The items that the connector hands to the widget.\<close>

record mr_item =
  mi_label :: jsval
  mi_value :: string
  mi_isRefined :: bool
  mi_noRefinement :: bool

record mr_props =
  attributeName :: string
  items :: "item list"
  mr_defaultRefinement :: jsval
  transformItems :: "(mr_item list \<Rightarrow> mr_item list) option"

definition mr_namespace :: string where
  "mr_namespace = ''multiRange''"

definition mr_getId :: "mr_props \<Rightarrow> string" where
  "mr_getId props = attributeName props"

text \<open>
  \<^verbatim>\<open>
  function getCurrentRefinement(props, searchState, context) {
    const id = getId(props);
    const index = getIndex(context);
    const refinements = hasMultipleIndex(context) && has(searchState, `indices.${index}.${namespace}.${id}`)
      || !hasMultipleIndex(context) && has(searchState, `${namespace}.${id}`);
    if (refinements) {
      const subState = hasMultipleIndex(context) ? searchState.indices[index][namespace] : searchState[namespace];
      if (subState[id] === '') {
        return '';
      }
      return subState[id];
    }
    if (props.defaultRefinement) {
      return props.defaultRefinement;
    }
    return '';
  }
  \<close>
\<close>

definition mr_refinements :: "mr_props \<Rightarrow> jsval \<Rightarrow> ctx \<Rightarrow> bool" where
  "mr_refinements props searchState context =
     (hasMultipleIndex context
        \<and> has_str searchState
             (''indices.'' @ getIndex context @ ''.'' @ mr_namespace @ ''.'' @ mr_getId props)
      \<or> \<not> hasMultipleIndex context
        \<and> has_str searchState (mr_namespace @ ''.'' @ mr_getId props))"

definition mr_subState :: "jsval \<Rightarrow> ctx \<Rightarrow> error + jsval" where
  "mr_subState searchState context =
     (if hasMultipleIndex context
      then thenE (get_prop searchState ''indices'') (\<lambda>indices.
           thenE (get_prop indices (getIndex context)) (\<lambda>ix.
           get_prop ix mr_namespace))
      else get_prop searchState mr_namespace)"

definition mr_getCurrentRefinement :: "mr_props \<Rightarrow> jsval \<Rightarrow> ctx \<Rightarrow> error + jsval" where
  "mr_getCurrentRefinement props searchState context =
     (if mr_refinements props searchState context
      then thenE (mr_subState searchState context) (\<lambda>subState.
           thenE (get_prop subState (mr_getId props)) (\<lambda>v.
           if v = JStr [] then Inr (JStr []) else Inr v))
      else if truthy (mr_defaultRefinement props) then Inr (mr_defaultRefinement props)
      else Inr (JStr []))"

text \<open>
  \<^verbatim>\<open>
  function refine(props, searchState, nextRefinement, context) {
    const nextValue = {[getId(props, searchState)]: nextRefinement};
    const index = getIndex(context);
    if (hasMultipleIndex(context)) {
      const state = has(searchState, `indices.${index}`)
        ? {...searchState.indices, [index]: {[namespace]: {...searchState.indices[index][namespace], ...nextValue}}}
        : {...searchState.indices, ...{[index]: {[namespace]: nextValue}}};
      return {...searchState, indices: state};
    } else {
      return {...searchState, [namespace]: {...searchState[namespace], ...nextValue}};
    }
  }
  \<close>
  The body is the same in the hierarchical-menu connector, up to the namespace and the value
  stored, so it is written once, over the namespace and \<open>nextValue\<close>.
\<close>

definition refine_in :: "string \<Rightarrow> (string \<times> jsval) list \<Rightarrow> jsval \<Rightarrow> ctx \<Rightarrow> error + jsval" where
  "refine_in namespace nextValue searchState context =
     (let index = getIndex context in
      if hasMultipleIndex context then
        thenE (get_prop searchState ''indices'') (\<lambda>indices.
        thenE (if has_str searchState (''indices.'' @ index)
               then thenE (get_prop indices index) (\<lambda>ix.
                    thenE (get_prop ix namespace) (\<lambda>sub.
                    Inr (assign (own_props indices)
                           [(index, JObj [(namespace, JObj (assign (own_props sub) nextValue))])])))
               else Inr (assign (own_props indices)
                           [(index, JObj [(namespace, JObj nextValue)])]))
          (\<lambda>state. Inr (JObj (assign (own_props searchState) [(''indices'', JObj state)]))))
      else
        thenE (get_prop searchState namespace) (\<lambda>sub.
        Inr (JObj (assign (own_props searchState)
                     [(namespace, JObj (assign (own_props sub) nextValue))]))))"

definition mr_refine :: "mr_props \<Rightarrow> jsval \<Rightarrow> jsval \<Rightarrow> ctx \<Rightarrow> error + jsval" where
  "mr_refine props searchState nextRefinement context =
     refine_in mr_namespace [(mr_getId props, nextRefinement)] searchState context"

text \<open>
  \<^verbatim>\<open>
  function cleanUp(props, searchState, context) {
    const index = getIndex(context);
    const prefix = hasMultipleIndex(context) && searchState.indices ? `indices.${index}.${namespace}` : namespace;
    const cleanState = omit(searchState, `${prefix}.${getId(props)}`);
    if (isEmpty(cleanState[namespace])) {
      return omit(cleanState, namespace);
    }
    return cleanState;
  }
  \<close>
\<close>

definition mr_cleanUp :: "mr_props \<Rightarrow> jsval \<Rightarrow> ctx \<Rightarrow> error + jsval" where
  "mr_cleanUp props searchState context =
     thenE (if hasMultipleIndex context
            then thenE (get_prop searchState ''indices'') (\<lambda>indices.
                 Inr (if truthy indices
                      then ''indices.'' @ getIndex context @ ''.'' @ mr_namespace
                      else mr_namespace))
            else Inr mr_namespace) (\<lambda>prefix.
     let cleanState = omit searchState (prefix @ ''.'' @ mr_getId props) in
     thenE (get_prop cleanState mr_namespace) (\<lambda>sub.
     if isEmpty sub then Inr (omit cleanState mr_namespace) else Inr cleanState))"


section \<open>The multi-range connector: provided props and search parameters\<close>

text \<open>The search results: \<open>searchResults.results\<close> may be missing, and so may the
  results of an index.\<close>

record searchResults =
  sr_results :: "(string \<Rightarrow> results option) option"

record mr_provided =
  pp_items :: "mr_item list"
  pp_currentRefinement :: jsval
  pp_canRefine :: bool

text \<open>
  \<^verbatim>\<open>
  getProvidedProps(props, searchState, searchResults) {
    const attributeName = props.attributeName;
    const currentRefinement = getCurrentRefinement(props, searchState, this.context);
    const index = getIndex(this.context);
    const items = props.items.map(item => {
      const value = stringifyItem(item);
      return {
        label: item.label,
        value,
        isRefined: value === currentRefinement,
        noRefinement: searchResults.results && searchResults.results[index] ?
         itemHasRefinement(getId(props), searchResults.results[index], value) : false,
      };
    });

    const stats = searchResults.results && searchResults.results[index] && searchResults.results[index].getFacetByName(attributeName) ?
      searchResults.results[index].getFacetStats(attributeName) : null;
    const refinedItem = find(items, item => item.isRefined === true);
    if (!items.some(item => item.value === '')) {
      items.push({
        value: '',
        isRefined: isEmpty(refinedItem),
        noRefinement: !stats,
        label: 'All',
      });
    }

    return {
      items: props.transformItems ? props.transformItems(items) : items,
      currentRefinement,
      canRefine: items.length > 0 && items.some(item => item.noRefinement === false),
    };
  },
  \<close>
  \<open>mr_items\<close> is the array \<open>items\<close> as it stands before the \<open>return\<close>, that is
  before \<open>transformItems\<close> is applied.
\<close>

definition index_results :: "searchResults \<Rightarrow> string \<Rightarrow> results option" where
  "index_results searchResults index =
     (case sr_results searchResults of None \<Rightarrow> None | Some rs \<Rightarrow> rs index)"

definition mr_mapItem :: "mr_props \<Rightarrow> jsval \<Rightarrow> searchResults \<Rightarrow> string \<Rightarrow> item \<Rightarrow> mr_item" where
  "mr_mapItem props currentRefinement searchResults index item =
     (let v = stringifyItem item in
      \<lparr>mi_label = item_label item,
       mi_value = v,
       mi_isRefined = (JStr v = currentRefinement),
       mi_noRefinement =
         (case index_results searchResults index of
            None \<Rightarrow> False
          | Some res \<Rightarrow> itemHasRefinement (mr_getId props) res v)\<rparr>)"

definition mr_items :: "mr_props \<Rightarrow> jsval \<Rightarrow> searchResults \<Rightarrow> string \<Rightarrow> mr_item list" where
  "mr_items props currentRefinement searchResults index =
     (let its = map (mr_mapItem props currentRefinement searchResults index) (items props);
          st = (case index_results searchResults index of
                  None \<Rightarrow> None
                | Some res \<Rightarrow>
                    if getFacetByName res (attributeName props)
                    then getFacetStats res (attributeName props) else None);
          refinedItem = find mi_isRefined its
      in if \<not> list_ex (\<lambda>i. mi_value i = []) its
         then its @ [\<lparr>mi_label = JStr ''All'',
                      mi_value = [],
                      mi_isRefined = (refinedItem = None),
                      mi_noRefinement = (st = None)\<rparr>]
         else its)"

definition mr_getProvidedProps ::
    "mr_props \<Rightarrow> jsval \<Rightarrow> searchResults \<Rightarrow> ctx \<Rightarrow> error + mr_provided" where
  "mr_getProvidedProps props searchState searchResults context =
     thenE (mr_getCurrentRefinement props searchState context) (\<lambda>currentRefinement.
     let its = mr_items props currentRefinement searchResults (getIndex context) in
     Inr \<lparr>pp_items = (case transformItems props of Some f \<Rightarrow> f its | None \<Rightarrow> its),
          pp_currentRefinement = currentRefinement,
          pp_canRefine = (length its > 0 \<and> list_ex (\<lambda>i. mi_noRefinement i = False) its)\<rparr>)"

text \<open>
  The query-parameters builder is an external, immutable object: every mutator returns a
  new builder. A builder is modelled by the calls made on it so far, oldest first.
\<close>

datatype sp_call =
    AddDisjunctiveFacet string
  | AddNumericRefinement string string jsval

type_synonym searchParameters = "sp_call list"

definition addDisjunctiveFacet :: "string \<Rightarrow> searchParameters \<Rightarrow> searchParameters" where
  "addDisjunctiveFacet a sp = sp @ [AddDisjunctiveFacet a]"

definition addNumericRefinement ::
    "string \<Rightarrow> string \<Rightarrow> jsval \<Rightarrow> searchParameters \<Rightarrow> searchParameters" where
  "addNumericRefinement a operator v sp = sp @ [AddNumericRefinement a operator v]"

text \<open>
  \<open>parseItem\<close> applied to whatever \<open>getCurrentRefinement\<close> returned. A value that is
  not a string has no method \<open>split\<close>, so the call raises a TypeError, unless it is an
  object with a property \<open>length\<close> equal to \<open>0\<close>, which takes the first \<open>return\<close>.
\<close>

fun parseItem_value :: "jsval \<Rightarrow> error + range" where
  "parseItem_value (JStr v) = parseItem v"
| "parseItem_value (JObj kvs) =
     (if map_of kvs ''length'' = Some (JNum (Fin 0))
      then Inr \<lparr>range_start = JNull, range_end = JNull\<rparr> else Inl TypeError)"
| "parseItem_value _ = Inl TypeError"

text \<open>
  \<^verbatim>\<open>
  getSearchParameters(searchParameters, props, searchState) {
    const {attributeName} = props;
    const {start, end} = parseItem(getCurrentRefinement(props, searchState, this.context));
    searchParameters = searchParameters.addDisjunctiveFacet(attributeName);

    if (start) {
      searchParameters = searchParameters.addNumericRefinement(
        attributeName,
        '>=',
        start
      );
    }
    if (end) {
      searchParameters = searchParameters.addNumericRefinement(
        attributeName,
        '<=',
        end
      );
    }
    return searchParameters;
  },
  \<close>
\<close>

definition mr_getSearchParameters ::
    "searchParameters \<Rightarrow> mr_props \<Rightarrow> jsval \<Rightarrow> ctx \<Rightarrow> error + searchParameters" where
  "mr_getSearchParameters sp props searchState context =
     thenE (mr_getCurrentRefinement props searchState context) (\<lambda>cur.
     thenE (parseItem_value cur) (\<lambda>r.
     let sp1 = addDisjunctiveFacet (attributeName props) sp;
         sp2 = (if truthy (range_start r)
                then addNumericRefinement (attributeName props) ''>='' (range_start r) sp1
                else sp1);
         sp3 = (if truthy (range_end r)
                then addNumericRefinement (attributeName props) ''<='' (range_end r) sp2
                else sp2)
     in Inr sp3))"


section \<open>The hierarchical-menu connector\<close>

record hm_props =
  hm_id :: jsval
  attributes :: "string list"
  separator :: jsval
  rootPath :: jsval
  showParentLevel :: jsval
  hm_defaultRefinement :: jsval

definition hm_namespace :: string where
  "hm_namespace = ''hierarchicalMenu''"

text \<open>
  \<^verbatim>\<open>export const getId = props => props.attributes[0];\<close>
  The id is only used as a property key below, where \<open>undefined\<close> (an empty list of
  attributes) reads as the key \<open>undefined\<close>.
\<close>

definition hm_getId :: "hm_props \<Rightarrow> string" where
  "hm_getId props = (case at (attributes props) 0 of None \<Rightarrow> ''undefined'' | Some a \<Rightarrow> a)"

text \<open>
  \<^verbatim>\<open>
  function getCurrentRefinement(props, searchState, context) {
    const id = getId(props);
    const index = getIndex(context);
    const refinements = hasMultipleIndex(context) && has(searchState, ['indices', index, namespace, id])
      || !hasMultipleIndex(context) && has(searchState, [namespace, id]);
    if (refinements) {
      const subState = hasMultipleIndex(context) ? searchState.indices[index][namespace] : searchState[namespace];
      if (subState[id] === '') {
        return null;
      }
      return subState[id];
    }
    if (props.defaultRefinement) {
      return props.defaultRefinement;
    }
    return null;
  }
  \<close>
\<close>

definition hm_refinements :: "hm_props \<Rightarrow> jsval \<Rightarrow> ctx \<Rightarrow> bool" where
  "hm_refinements props searchState context =
     (hasMultipleIndex context
        \<and> has_path searchState [''indices'', getIndex context, hm_namespace, hm_getId props]
      \<or> \<not> hasMultipleIndex context
        \<and> has_path searchState [hm_namespace, hm_getId props])"

definition hm_subState :: "jsval \<Rightarrow> ctx \<Rightarrow> error + jsval" where
  "hm_subState searchState context =
     (if hasMultipleIndex context
      then thenE (get_prop searchState ''indices'') (\<lambda>indices.
           thenE (get_prop indices (getIndex context)) (\<lambda>ix.
           get_prop ix hm_namespace))
      else get_prop searchState hm_namespace)"

definition hm_getCurrentRefinement :: "hm_props \<Rightarrow> jsval \<Rightarrow> ctx \<Rightarrow> error + jsval" where
  "hm_getCurrentRefinement props searchState context =
     (if hm_refinements props searchState context
      then thenE (hm_subState searchState context) (\<lambda>subState.
           thenE (get_prop subState (hm_getId props)) (\<lambda>v.
           if v = JStr [] then Inr JNull else Inr v))
      else if truthy (hm_defaultRefinement props) then Inr (hm_defaultRefinement props)
      else Inr JNull)"

text \<open>
  \<^verbatim>\<open>
  function refine(props, searchState, nextRefinement, context) {
    const id = getId(props);
    const nextValue = {[id]: nextRefinement || ''};
    const index = getIndex(context);
    if (hasMultipleIndex(context)) { ... } else { ... }   // as in the multi-range connector
  }
  \<close>
\<close>

definition hm_refine :: "hm_props \<Rightarrow> jsval \<Rightarrow> jsval \<Rightarrow> ctx \<Rightarrow> error + jsval" where
  "hm_refine props searchState nextRefinement context =
     refine_in hm_namespace
       [(hm_getId props, if truthy nextRefinement then nextRefinement else JStr [])]
       searchState context"

text \<open>
  \<^verbatim>\<open>
  function cleanUp(props, searchState, context) {
    const index = getIndex(context);
    const prefix = hasMultipleIndex(context) && searchState.indices ? `indices.${index}.${namespace}` : namespace;
    unset(searchState, [prefix, getId(props)]);
    if (isEmpty(searchState[namespace])) {
      return omit(searchState, namespace);
    }
    return searchState;
  }
  \<close>
  lodash \<open>unset\<close> changes the object it is given. The model returns a pair: the value
  that \<open>cleanUp\<close> returns, and the object \<open>searchState\<close> of the caller as it is after
  the call. The path given to \<open>unset\<close> is an array of two keys, the first of which is
  the whole prefix.
\<close>

definition hm_cleanUp :: "hm_props \<Rightarrow> jsval \<Rightarrow> ctx \<Rightarrow> error + (jsval \<times> jsval)" where
  "hm_cleanUp props searchState context =
     thenE (if hasMultipleIndex context
            then thenE (get_prop searchState ''indices'') (\<lambda>indices.
                 Inr (if truthy indices
                      then ''indices.'' @ getIndex context @ ''.'' @ hm_namespace
                      else hm_namespace))
            else Inr hm_namespace) (\<lambda>prefix.
     let searchState' = unset_path searchState [prefix, hm_getId props] in
     thenE (get_prop searchState' hm_namespace) (\<lambda>sub.
     if isEmpty sub then Inr (omit searchState' hm_namespace, searchState')
     else Inr (searchState', searchState')))"

subsection \<open>The toggle engine\<close>

record hierarchicalFacet =
  hf_name :: jsval
  hf_attributes :: "string list"
  hf_separator :: jsval
  hf_rootPath :: jsval
  hf_showParentLevel :: jsval

record hierarchicalParameters =
  hierarchicalFacets :: "hierarchicalFacet list"
  hierarchicalFacetsRefinements :: "(string \<times> string list) list"

text \<open>
  The transient builder is a \<open>SearchParameters\<close> object of the search helper library
  that the connector imports. The library is not part of the source tree of the connectors;
  the three methods the connector calls are modelled after the library's own code:
  \<^verbatim>\<open>
  _getHierarchicalFacetSeparator: function(hierarchicalFacet) {
    return hierarchicalFacet.separator || ' > ';
  },
  toggleHierarchicalFacetRefinement: function(facet, value) {
    if (!this.isHierarchicalFacet(facet)) {
      throw new Error(facet + ' is not defined in the hierarchicalFacets attribute ...');
    }
    var separator = this._getHierarchicalFacetSeparator(this.getHierarchicalFacetByName(facet));
    var mod = {};
    var upOneOrMultipleLevel = this.hierarchicalFacetsRefinements[facet] !== undefined &&
      this.hierarchicalFacetsRefinements[facet].length > 0 && (
      // remove current refinement:
      // refinement was 'beer > IPA', call is toggleRefine('beer > IPA'), refinement should be `beer`
      this.hierarchicalFacetsRefinements[facet][0] === value ||
      // remove a parent refinement of the current refinement:
      //  - refinement was 'beer > IPA > Flying dog'
      //  - call is toggleRefine('beer > IPA')
      //  - refinement should be `beer`
      this.hierarchicalFacetsRefinements[facet][0].indexOf(value + separator) === 0
    );
    if (upOneOrMultipleLevel) {
      if (value.indexOf(separator) === -1) {
        // go back to root level
        mod[facet] = [];
      } else {
        mod[facet] = [value.slice(0, value.lastIndexOf(separator))];
      }
    } else {
      mod[facet] = [value];
    }
    return this.setQueryParameters({
      hierarchicalFacetsRefinements: defaults({}, mod, this.hierarchicalFacetsRefinements)
    });
  },
  getHierarchicalRefinement: function(facetName) {
    return this.hierarchicalFacetsRefinements[facetName] || [];
  },
  \<close>
  So a facet has at most one active path, and toggling the active path, or an ancestor of
  it, moves up one level from the toggled path: to its parent, or to the root (no active
  path) when the toggled path is a top-level one. Paths are strings. The refinements are
  an object keyed by the facet name, which as a property key is its string.
\<close>

definition getHierarchicalFacetSeparator :: "hierarchicalFacet \<Rightarrow> string" where
  "getHierarchicalFacetSeparator hf =
     to_string (if truthy (hf_separator hf) then hf_separator hf else JStr '' > '')"

text \<open>\<open>sep\<close> occurs in \<open>s\<close> at index \<open>i\<close>; \<open>s.indexOf(sep) === 0\<close> is an
  occurrence at \<open>0\<close>.\<close>

definition occurs_at :: "string \<Rightarrow> string \<Rightarrow> nat \<Rightarrow> bool" where
  "occurs_at sep s i = (take (length sep) (drop i s) = sep)"

text \<open>\<open>s.lastIndexOf(sep)\<close>, with \<open>None\<close> for \<open>-1\<close>; \<open>s.indexOf(sep) === -1\<close>
  holds when there is no occurrence at all, that is when \<open>lastIndexOf\<close> is \<open>None\<close>.\<close>

definition lastIndexOf :: "string \<Rightarrow> string \<Rightarrow> nat option" where
  "lastIndexOf s sep =
     (case filter (occurs_at sep s) (rev [0..<Suc (length s)]) of
        [] \<Rightarrow> None
      | i # _ \<Rightarrow> Some i)"

definition toggleHierarchicalFacetRefinement ::
    "jsval \<Rightarrow> string \<Rightarrow> hierarchicalParameters \<Rightarrow> error + hierarchicalParameters" where
  "toggleHierarchicalFacetRefinement facet v sp =
     (case find (\<lambda>hf. hf_name hf = facet) (hierarchicalFacets sp) of
        None \<Rightarrow> Inl Error
      | Some hf \<Rightarrow>
          (let sep = getHierarchicalFacetSeparator hf;
               upOneOrMultipleLevel =
                 (case map_of (hierarchicalFacetsRefinements sp) (to_string facet) of
                    Some (c # _) \<Rightarrow> c = v \<or> occurs_at (v @ sep) c 0
                  | _ \<Rightarrow> False);
               new = (if upOneOrMultipleLevel
                      then (case lastIndexOf v sep of
                              None \<Rightarrow> []
                            | Some i \<Rightarrow> [take i v])
                      else [v])
           in Inr (sp\<lparr>hierarchicalFacetsRefinements :=
                        (to_string facet, new)
                        # AList.delete (to_string facet) (hierarchicalFacetsRefinements sp)\<rparr>)))"

definition getHierarchicalRefinement :: "jsval \<Rightarrow> hierarchicalParameters \<Rightarrow> string list" where
  "getHierarchicalRefinement facetName sp =
     (case map_of (hierarchicalFacetsRefinements sp) (to_string facetName) of
        None \<Rightarrow> []
      | Some ps \<Rightarrow> ps)"

text \<open>
  \<^verbatim>\<open>
  function getValue(path, props, searchState, context) {
    const { id, attributes, separator, rootPath, showParentLevel } = props;

    const currentRefinement = getCurrentRefinement(props, searchState, context);
    let nextRefinement;

    if (currentRefinement === null) {
      nextRefinement = path;
    } else {
      const tmpSearchParameters = new SearchParameters({
        hierarchicalFacets: [{ name: id, attributes, separator, rootPath, showParentLevel }],
      });

      nextRefinement = tmpSearchParameters
        .toggleHierarchicalFacetRefinement(id, currentRefinement)
        .toggleHierarchicalFacetRefinement(id, path)
        .getHierarchicalRefinement(id)[0];
    }

    return nextRefinement;
  }
  \<close>
  The path is the \<open>path\<close> of a facet value, a string. Element \<open>0\<close> of an empty array
  is \<open>undefined\<close>. A current refinement that is neither \<open>null\<close> nor a string is
  stored by the first toggle, is not equal to the path in the second, and has no method
  \<open>indexOf\<close> there: a TypeError.
\<close>

definition getValue :: "string \<Rightarrow> hm_props \<Rightarrow> jsval \<Rightarrow> ctx \<Rightarrow> error + jsval" where
  "getValue path props searchState context =
     thenE (hm_getCurrentRefinement props searchState context) (\<lambda>currentRefinement.
     if currentRefinement = JNull then Inr (JStr path)
     else (let tmpSearchParameters =
                 \<lparr>hierarchicalFacets =
                    [\<lparr>hf_name = hm_id props, hf_attributes = attributes props,
                      hf_separator = separator props, hf_rootPath = rootPath props,
                      hf_showParentLevel = showParentLevel props\<rparr>],
                  hierarchicalFacetsRefinements = []\<rparr>
           in case currentRefinement of
                JStr c \<Rightarrow>
                  thenE (toggleHierarchicalFacetRefinement (hm_id props) c tmpSearchParameters)
                    (\<lambda>sp1.
                  thenE (toggleHierarchicalFacetRefinement (hm_id props) path sp1) (\<lambda>sp2.
                  Inr (case at (getHierarchicalRefinement (hm_id props) sp2) 0 of
                         None \<Rightarrow> JUndefined
                       | Some p \<Rightarrow> JStr p)))
              | _ \<Rightarrow> Inl TypeError))"

section \<open>The sort-by connector\<close>

text \<open>
  \<^verbatim>\<open>
  function getId() {
    return 'sortBy';
  }
  refine(props, searchState, nextRefinement) {
    const id = getId();
    const sortByState = this.context.multiIndexContext ?
      {indices: {[this.context.multiIndexContext.targettedIndex]: {[id]: nextRefinement}}}
      : {[id]: nextRefinement};
    const state = {
      ...searchState,
      ...sortByState,
    };
    return state;
  },
  cleanUp(props, searchState) {
    if (this.context.multiIndexContext && searchState.indices) {
      const index = this.context.multiIndexContext.targettedIndex;
      return {...searchState, ...{indices: {[index]: omit(searchState.indices[index], getId())}}};
    } else {
      return omit(searchState, getId());
    }
  },
  \<close>
  Neither function reads its \<open>props\<close>.
\<close>

definition sb_getId :: string where
  "sb_getId = ''sortBy''"

definition sb_refine :: "jsval \<Rightarrow> jsval \<Rightarrow> ctx \<Rightarrow> jsval" where
  "sb_refine searchState nextRefinement context =
     (let sortByState =
            (case multiIndexContext context of
               Some targettedIndex \<Rightarrow>
                 [(''indices'', JObj [(targettedIndex, JObj [(sb_getId, nextRefinement)])])]
             | None \<Rightarrow> [(sb_getId, nextRefinement)])
      in JObj (assign (own_props searchState) sortByState))"

definition sb_cleanUp :: "jsval \<Rightarrow> ctx \<Rightarrow> error + jsval" where
  "sb_cleanUp searchState context =
     (case multiIndexContext context of
        None \<Rightarrow> Inr (omit searchState sb_getId)
      | Some index \<Rightarrow>
          thenE (get_prop searchState ''indices'') (\<lambda>indices.
          if truthy indices
          then thenE (get_prop indices index) (\<lambda>ix.
               Inr (JObj (assign (own_props searchState)
                            [(''indices'', JObj [(index, omit ix sb_getId)])])))
          else Inr (omit searchState sb_getId)))"


section \<open>Properties\<close>

subsection \<open>Helper lemmas on numbers and strings\<close>

lemma js_lt_irrefl: "\<not> js_lt a a"
  by (cases a) simp_all

lemma split_on_nonempty: "split_on c s \<noteq> []"
  by (induction s) (auto split: list.splits)

lemma split_on_notin: "c \<notin> set s \<Longrightarrow> split_on c s = [s]"
  by (induction s) auto

lemma split_on_append: "c \<notin> set a \<Longrightarrow> split_on c (a @ c # b) = a # split_on c b"
  by (induction a) auto

lemma split_on_hd: "hd (split_on c b) = takeWhile (\<lambda>x. x \<noteq> c) b"
  by (induction b) (auto split: list.splits simp: split_on_nonempty)

lemma at_0: "at (x # xs) 0 = Some x"
  by (simp add: at_def)

lemma at_1: "at (x # xs) (Suc 0) = at xs 0"
  by (simp add: at_def)

lemma at_0_split: "at (split_on c b) 0 = Some (takeWhile (\<lambda>x. x \<noteq> c) b)"
  using split_on_nonempty [of c b] split_on_hd [of c b]
  by (cases "split_on c b") (simp_all add: at_def)

subsection \<open>Overlap evaluator\<close>

lemma nat_digits_10_20: "nat_digits 10 = ''10''" "nat_digits 20 = ''20''"
  by code_simp+

lemma nat_digits_5_15: "nat_digits 5 = ''5''" "nat_digits 15 = ''15''"
  by code_simp+

text \<open>
  Claim C1. With facet statistics \<open>{min: 10, max: 20}\<close>, the bucket \<open>10:20\<close> is
  flagged \<open>noRefinement\<close> (the source function \<open>itemHasRefinement\<close> returns that flag,
  so the spec's \<open>hasRefinement\<close> is false), and the bucket \<open>5:15\<close> is not flagged
  (\<open>hasRefinement\<close> is true); the items \<open>{start: 10, end: 20}\<close> and
  \<open>{start: 5, end: 15}\<close> that \<open>getProvidedProps\<close> derives carry these flags.
  Both overlap tests are strict: a bucket bound equal to the
  minimum or the maximum of the statistics adds nothing to the test "a bound of the bucket
  lies inside the statistics", which then is decided by the other bound alone, and a
  statistics bound equal to a bound of the bucket adds nothing to the test "a bound of the
  statistics lies inside the bucket".
\<close>

theorem overlap_boundary:
  assumes "getFacetByName res attr"
    and "getFacetStats res attr = Some \<lparr>stats_min = Fin 10, stats_max = Fin 20\<rparr>"
  shows "itemHasRefinement attr res ''10:20'' = True
    \<and> itemHasRefinement attr res ''5:15'' = False
    \<and> (index_results sr idx = Some res \<and> mr_getId props = attr \<longrightarrow>
          mi_noRefinement (mr_mapItem props cur sr idx
             \<lparr>item_label = l, item_start = JNum (Fin 10), item_end = JNum (Fin 20)\<rparr>) = True
          \<and> mi_noRefinement (mr_mapItem props cur sr idx
             \<lparr>item_label = l, item_start = JNum (Fin 5), item_end = JNum (Fin 15)\<rparr>) = False)
    \<and> (s \<in> {stats_min st, stats_max st} \<longrightarrow>
           isItemRangeIncludedInsideRefinementsRange st s e
             = (js_gt e (stats_min st) \<and> js_lt e (stats_max st)))
    \<and> (e \<in> {stats_min st, stats_max st} \<longrightarrow>
           isItemRangeIncludedInsideRefinementsRange st s e
             = (js_gt s (stats_min st) \<and> js_lt s (stats_max st)))
    \<and> (stats_min st \<in> {s, e} \<longrightarrow>
           isRefinementsRangeIncludesInsideItemRange st s e
             = (js_gt (stats_max st) s \<and> js_lt (stats_max st) e))
    \<and> (stats_max st \<in> {s, e} \<longrightarrow>
           isRefinementsRangeIncludesInsideItemRange st s e
             = (js_gt (stats_min st) s \<and> js_lt (stats_min st) e))"
proof -
  have n10: "str_to_number ''10'' = Fin 10" by code_simp
  have n20: "str_to_number ''20'' = Fin 20" by code_simp
  have n5: "str_to_number ''5'' = Fin 5" by code_simp
  have n15: "str_to_number ''15'' = Fin 15" by code_simp
  have a: "itemHasRefinement attr res ''10:20'' = True"
    using assms
    by (simp add: itemHasRefinement_def at_def to_number_def n10 n20 js_gt_def
        isRefinementsRangeIncludesInsideItemRange_def isItemRangeIncludedInsideRefinementsRange_def)
  have b: "itemHasRefinement attr res ''5:15'' = False"
    using assms
    by (simp add: itemHasRefinement_def at_def to_number_def n5 n15 js_gt_def
        isRefinementsRangeIncludesInsideItemRange_def isItemRangeIncludedInsideRefinementsRange_def)
  have s1: "stringifyItem \<lparr>item_label = l, item_start = JNum (Fin 10), item_end = JNum (Fin 20)\<rparr>
              = ''10:20''"
    by (simp add: stringifyItem_def nat_digits_10_20)
  have s2: "stringifyItem \<lparr>item_label = l, item_start = JNum (Fin 5), item_end = JNum (Fin 15)\<rparr>
              = ''5:15''"
    by (simp add: stringifyItem_def nat_digits_5_15)
  have m: "index_results sr idx = Some res \<and> mr_getId props = attr \<longrightarrow>
          mi_noRefinement (mr_mapItem props cur sr idx
             \<lparr>item_label = l, item_start = JNum (Fin 10), item_end = JNum (Fin 20)\<rparr>) = True
          \<and> mi_noRefinement (mr_mapItem props cur sr idx
             \<lparr>item_label = l, item_start = JNum (Fin 5), item_end = JNum (Fin 15)\<rparr>) = False"
    using a b by (simp add: mr_mapItem_def s1 s2 Let_def)
  have c: "s \<in> {stats_min st, stats_max st} \<longrightarrow>
           isItemRangeIncludedInsideRefinementsRange st s e
             = (js_gt e (stats_min st) \<and> js_lt e (stats_max st))"
    by (auto simp: isItemRangeIncludedInsideRefinementsRange_def js_gt_def js_lt_irrefl)
  have d: "e \<in> {stats_min st, stats_max st} \<longrightarrow>
           isItemRangeIncludedInsideRefinementsRange st s e
             = (js_gt s (stats_min st) \<and> js_lt s (stats_max st))"
    by (auto simp: isItemRangeIncludedInsideRefinementsRange_def js_gt_def js_lt_irrefl)
  have e: "stats_min st \<in> {s, e} \<longrightarrow>
           isRefinementsRangeIncludesInsideItemRange st s e
             = (js_gt (stats_max st) s \<and> js_lt (stats_max st) e)"
    by (auto simp: isRefinementsRangeIncludesInsideItemRange_def js_gt_def js_lt_irrefl)
  have f: "stats_max st \<in> {s, e} \<longrightarrow>
           isRefinementsRangeIncludesInsideItemRange st s e
             = (js_gt (stats_min st) s \<and> js_lt (stats_min st) e)"
    by (auto simp: isRefinementsRangeIncludesInsideItemRange_def js_gt_def js_lt_irrefl)
  from a b m c d e f show ?thesis by blast
qed

theorem overlap_boundary_witness:
  "itemHasRefinement ''price''
      \<lparr>getFacetByName = (\<lambda>_. True),
       getFacetStats = (\<lambda>_. Some \<lparr>stats_min = Fin 10, stats_max = Fin 20\<rparr>)\<rparr> ''10:20'' = True
   \<and> itemHasRefinement ''price''
      \<lparr>getFacetByName = (\<lambda>_. True),
       getFacetStats = (\<lambda>_. Some \<lparr>stats_min = Fin 10, stats_max = Fin 20\<rparr>)\<rparr> ''5:15'' = False
   \<and> mi_noRefinement (mr_mapItem
        \<lparr>attributeName = ''price'', items = [], mr_defaultRefinement = JUndefined,
         transformItems = None\<rparr>
        (JStr [])
        \<lparr>sr_results = Some (\<lambda>_. Some
           \<lparr>getFacetByName = (\<lambda>_. True),
            getFacetStats = (\<lambda>_. Some \<lparr>stats_min = Fin 10, stats_max = Fin 20\<rparr>)\<rparr>)\<rparr>
        ''index''
        \<lparr>item_label = JStr ''10 to 20'', item_start = JNum (Fin 10), item_end = JNum (Fin 20)\<rparr>)
   \<and> \<not> isItemRangeIncludedInsideRefinementsRange
         \<lparr>stats_min = Fin 10, stats_max = Fin 20\<rparr> (Fin 10) (Fin 20)
   \<and> \<not> isRefinementsRangeIncludesInsideItemRange
         \<lparr>stats_min = Fin 10, stats_max = Fin 20\<rparr> (Fin 10) (Fin 20)"
  using overlap_boundary
    [where res = "\<lparr>getFacetByName = (\<lambda>_. True),
              getFacetStats = (\<lambda>_. Some \<lparr>stats_min = Fin 10, stats_max = Fin 20\<rparr>)\<rparr>"
       and attr = "''price''" and s = "Fin 10" and e = "Fin 20"
       and st = "\<lparr>stats_min = Fin 10, stats_max = Fin 20\<rparr>"
       and sr = "\<lparr>sr_results = Some (\<lambda>_. Some
           \<lparr>getFacetByName = (\<lambda>_. True),
            getFacetStats = (\<lambda>_. Some \<lparr>stats_min = Fin 10, stats_max = Fin 20\<rparr>)\<rparr>)\<rparr>"
       and idx = "''index''"
       and props = "\<lparr>attributeName = ''price'', items = [], mr_defaultRefinement = JUndefined,
         transformItems = None\<rparr>"
       and cur = "JStr []" and l = "JStr ''10 to 20''"]
  by (simp add: js_gt_def index_results_def mr_getId_def)

subsection \<open>Refinement codec\<close>

text \<open>
  Claim C4, as stated, fails: \<open>parseItem\<close> raises a TypeError on a non-empty string
  that has no separator, such as \<open>10\<close>.
\<close>

theorem parseItem_no_separator_throws: "parseItem ''10'' = Inl TypeError"
  by (simp add: parseItem_def at_def)

text \<open>
  Claim C4, amended. \<open>parseItem\<close> returns a record for the empty string (both bounds
  \<open>null\<close>) and for every string that contains a separator: the start is read from the
  text before the first separator, the end from the text between the first and the second
  separator (or the end of the string), and an empty half is \<open>null\<close>. On a non-empty
  string without separator it raises a TypeError.
\<close>

theorem parseItem_separated:
  "parseItem [] = Inr \<lparr>range_start = JNull, range_end = JNull\<rparr>
   \<and> (CHR '':'' \<notin> set a \<longrightarrow>
        parseItem (a @ CHR '':'' # b) =
          Inr \<lparr>range_start = (if a = [] then JNull else JNum (parseInt a)),
               range_end = (let e = takeWhile (\<lambda>x. x \<noteq> CHR '':'') b
                            in if e = [] then JNull else JNum (parseInt e))\<rparr>)
   \<and> (v \<noteq> [] \<and> CHR '':'' \<notin> set v \<longrightarrow> parseItem v = Inl TypeError)"
proof (intro conjI impI)
  show "parseItem [] = Inr \<lparr>range_start = JNull, range_end = JNull\<rparr>"
    by (simp add: parseItem_def)
next
  assume a: "CHR '':'' \<notin> set a"
  show "parseItem (a @ CHR '':'' # b) =
          Inr \<lparr>range_start = (if a = [] then JNull else JNum (parseInt a)),
               range_end = (let e = takeWhile (\<lambda>x. x \<noteq> CHR '':'') b
                            in if e = [] then JNull else JNum (parseInt e))\<rparr>"
    by (simp add: parseItem_def split_on_append [OF a] at_0 at_1 at_0_split Let_def)
next
  assume "v \<noteq> [] \<and> CHR '':'' \<notin> set v"
  then show "parseItem v = Inl TypeError"
    by (simp add: parseItem_def split_on_notin at_def)
qed

theorem parseItem_separated_witness:
  "parseItem ''10:20''
     = Inr \<lparr>range_start = JNum (parseInt ''10''), range_end = JNum (parseInt ''20'')\<rparr>
   \<and> parseItem ''abc'' = Inl TypeError"
  using parseItem_separated [of "''10''" "''20''" "''abc''"] by simp

lemma digit_char_props:
  assumes "d < 10"
  shows "is_digit (digit_char d)" and "digit_val (digit_char d) = d"
    and "digit_char d \<noteq> CHR '':''" and "digit_char d \<noteq> CHR ''-''"
    and "digit_char d \<noteq> CHR ''+''" and "\<not> is_ws (digit_char d)"
proof -
  from assms have "d \<in> {0, 1, 2, 3, 4, 5, 6, 7, 8, 9}" by auto
  then show "is_digit (digit_char d)" and "digit_val (digit_char d) = d"
    and "digit_char d \<noteq> CHR '':''" and "digit_char d \<noteq> CHR ''-''"
    and "digit_char d \<noteq> CHR ''+''" and "\<not> is_ws (digit_char d)"
    by (auto simp: digit_char_def is_digit_def digit_val_def is_ws_def)
qed

lemma nat_digits_nonempty: "nat_digits n \<noteq> []"
  by (subst nat_digits.simps) simp

lemma nat_digits_all_digits: "c \<in> set (nat_digits n) \<Longrightarrow> is_digit c"
proof (induction n rule: nat_digits.induct)
  case (1 n)
  then show ?case
    by (subst (asm) (2) nat_digits.simps) (auto simp: digit_char_props split: if_splits)
qed

lemma digits_to_nat_snoc: "digits_to_nat (ds @ [c]) = 10 * digits_to_nat ds + digit_val c"
  by (simp add: digits_to_nat_def)

lemma digits_to_nat_digits: "digits_to_nat (nat_digits n) = n"
proof (induction n rule: nat_digits.induct)
  case (1 n)
  show ?case
  proof (cases "n < 10")
    case True
    then show ?thesis
      by (subst nat_digits.simps) (simp add: digits_to_nat_def digit_char_props)
  next
    case False
    with 1 show ?thesis
      by (subst nat_digits.simps) (simp add: digits_to_nat_snoc digit_char_props)
  qed
qed

lemma is_digit_not_special:
  "is_digit c \<Longrightarrow> c \<noteq> CHR '':'' \<and> c \<noteq> CHR ''-'' \<and> c \<noteq> CHR ''+'' \<and> \<not> is_ws c"
  by (auto simp: is_digit_def is_ws_def)

lemma parseInt_digits:
  assumes "ds \<noteq> []" and "\<forall>c \<in> set ds. is_digit c"
  shows "parseInt ds = Fin (int (digits_to_nat ds))"
    and "parseInt (CHR ''-'' # ds) = Fin (- int (digits_to_nat ds))"
proof -
  from assms obtain c r where ds: "ds = c # r" by (cases ds) auto
  with assms have c: "is_digit c" by simp
  have tw: "takeWhile is_digit ds = ds"
    using assms by (simp add: takeWhile_eq_all_conv)
  have "dropWhile is_ws ds = ds"
    using c is_digit_not_special [OF c] by (simp add: ds)
  moreover have "split_sign ds = (False, ds)"
    using is_digit_not_special [OF c] by (simp add: ds split_sign_def)
  ultimately show "parseInt ds = Fin (int (digits_to_nat ds))"
    using assms(1) by (simp add: parseInt_def tw signed_def)
  have "dropWhile is_ws (CHR ''-'' # ds) = CHR ''-'' # ds"
    by (simp add: is_ws_def)
  then show "parseInt (CHR ''-'' # ds) = Fin (- int (digits_to_nat ds))"
    using assms(1) by (simp add: parseInt_def split_sign_def tw signed_def)
qed

lemma parseInt_num_to_string: "parseInt (num_to_string (Fin i)) = Fin i"
  using parseInt_digits [of "nat_digits (nat i)"] parseInt_digits [of "nat_digits (nat (- i))"]
  by (auto simp: nat_digits_nonempty nat_digits_all_digits digits_to_nat_digits)

lemma num_to_string_no_colon: "CHR '':'' \<notin> set (num_to_string (Fin i))"
  using is_digit_not_special nat_digits_all_digits by auto

lemma num_to_string_nonempty: "num_to_string (Fin i) \<noteq> []"
  by (simp add: nat_digits_nonempty)

text \<open>
  Away from \<open>0\<close> the codec does round-trip: an item whose bounds are absent or
  integers other than \<open>0\<close> decodes to the same bounds, an absent bound as \<open>null\<close>.
\<close>

lemma codec_roundtrip_nonzero:
  assumes "a \<noteq> Some 0" and "b \<noteq> Some 0"
  shows "parseItem (stringifyItem
           \<lparr>item_label = l,
            item_start = (case a of None \<Rightarrow> JUndefined | Some i \<Rightarrow> JNum (Fin i)),
            item_end = (case b of None \<Rightarrow> JUndefined | Some j \<Rightarrow> JNum (Fin j))\<rparr>)
           = Inr \<lparr>range_start = (case a of None \<Rightarrow> JNull | Some i \<Rightarrow> JNum (Fin i)),
                  range_end = (case b of None \<Rightarrow> JNull | Some j \<Rightarrow> JNum (Fin j))\<rparr>"
proof -
  have tw: "takeWhile (\<lambda>x. x \<noteq> CHR '':'') (num_to_string (Fin i)) = num_to_string (Fin i)" for i
    using num_to_string_no_colon [of i] by (auto simp: takeWhile_eq_all_conv simp del: num_to_string.simps)
  have sp: "split_on CHR '':'' (num_to_string (Fin i) @ CHR '':'' # r)
              = num_to_string (Fin i) # split_on CHR '':'' r" for i r
    using split_on_append [OF num_to_string_no_colon] by simp
  show ?thesis
  proof (cases a)
    case None
    note a = this
    show ?thesis
    proof (cases b)
      case None
      with a show ?thesis
        by (simp add: stringifyItem_def parseItem_def)
    next
      case (Some j)
      with a assms show ?thesis
        using split_on_append [of "CHR '':''" "[]" "num_to_string (Fin j)"]
        by (simp add: stringifyItem_def parseItem_def at_0 at_1
            split_on_notin [OF num_to_string_no_colon] num_to_string_nonempty
            parseInt_num_to_string del: num_to_string.simps)
    qed
  next
    case (Some i)
    note a = this
    show ?thesis
    proof (cases b)
      case None
      with a assms show ?thesis
        by (simp add: stringifyItem_def parseItem_def at_0 at_1 sp
            num_to_string_nonempty parseInt_num_to_string del: num_to_string.simps)
    next
      case (Some j)
      with a assms show ?thesis
        by (simp add: stringifyItem_def parseItem_def at_0 at_1 sp
            split_on_notin [OF num_to_string_no_colon] num_to_string_nonempty
            parseInt_num_to_string del: num_to_string.simps)
    qed
  qed
qed


lemma stringifyItem_empty:
  "stringifyItem it = [] \<longleftrightarrow> item_start it = JUndefined \<and> item_end it = JUndefined"
  by (simp add: stringifyItem_def)

text \<open>
  Claim C3. The round trip through the codec does not hold at a bound of \<open>0\<close>:
  \<open>stringifyItem\<close> tests the truthiness of a bound where its first line tests whether
  it is defined, so the item \<open>{start: 0, end: 5}\<close> is encoded as \<open>:5\<close> and decoded
  as \<open>{start: null, end: 5}\<close>, not as \<open>{start: 0, end: 5}\<close>.
\<close>

theorem codec_roundtrip_fails_at_zero:
  "parseItem (stringifyItem
      \<lparr>item_label = JStr ''low'', item_start = JNum (Fin 0), item_end = JNum (Fin 5)\<rparr>)
     = Inr \<lparr>range_start = JNull, range_end = JNum (Fin 5)\<rparr>"
  by code_simp

subsection \<open>Search state\<close>

lemma assign_single: "assign kvs [(k, v)] = AList.update k v kvs"
  by (simp add: assign_def)

text \<open>
  Claim C5. The \<open>cleanUp\<close> of the hierarchical-menu connector changes the object it is
  given: called in single-index position on
  \<open>{hierarchicalMenu: {category: 'a', brand: 'b'}}\<close>, it returns
  \<open>{hierarchicalMenu: {brand: 'b'}}\<close>, and the caller's object has lost its
  \<open>category\<close> entry as well (second component).
\<close>

theorem hm_cleanUp_mutates_input:
  "hm_cleanUp
      \<lparr>hm_id = JUndefined, attributes = [''category''], separator = JStr '' > '',
       rootPath = JNull, showParentLevel = JBool True, hm_defaultRefinement = JUndefined\<rparr>
      (JObj [(''hierarchicalMenu'', JObj [(''category'', JStr ''a''), (''brand'', JStr ''b'')])])
      \<lparr>mainTargettedIndex = ''index'', multiIndexContext = None\<rparr>
   = Inr (JObj [(''hierarchicalMenu'', JObj [(''brand'', JStr ''b'')])],
          JObj [(''hierarchicalMenu'', JObj [(''brand'', JStr ''b'')])])
   \<and> JObj [(''hierarchicalMenu'', JObj [(''brand'', JStr ''b'')])]
     \<noteq> JObj [(''hierarchicalMenu'', JObj [(''category'', JStr ''a''), (''brand'', JStr ''b'')])]"
  by (simp add: hm_cleanUp_def hasMultipleIndex_def hm_namespace_def hm_getId_def at_def thenE_def
      Let_def)

text \<open>
  Claim C6. In multi-index position the \<open>cleanUp\<close> of the multi-range connector leaves
  the emptied namespace behind: the widget \<open>price\<close> is the only occupant of
  \<open>indices.idx.multiRange\<close>, and the state returned still holds
  \<open>indices.idx.multiRange\<close>, now empty. (The emptiness test looks at the top-level
  \<open>multiRange\<close> key only.) In the same position the \<open>cleanUp\<close> of the
  hierarchical-menu connector removes nothing, and the one of the sort-by connector leaves
  the emptied object of the index behind.
\<close>

theorem mr_cleanUp_multi_index_leaves_container:
  "mr_cleanUp
      \<lparr>attributeName = ''price'', items = [], mr_defaultRefinement = JUndefined,
       transformItems = None\<rparr>
      (JObj [(''indices'',
              JObj [(''idx'', JObj [(''multiRange'', JObj [(''price'', JStr ''10:20'')])])])])
      \<lparr>mainTargettedIndex = ''index'', multiIndexContext = Some ''idx''\<rparr>
   = Inr (JObj [(''indices'', JObj [(''idx'', JObj [(''multiRange'', JObj [])])])])
   \<and> hm_cleanUp
      \<lparr>hm_id = JUndefined, attributes = [''category''], separator = JStr '' > '',
       rootPath = JNull, showParentLevel = JBool True, hm_defaultRefinement = JUndefined\<rparr>
      (JObj [(''indices'',
              JObj [(''idx'', JObj [(''hierarchicalMenu'', JObj [(''category'', JStr ''a'')])])])])
      \<lparr>mainTargettedIndex = ''index'', multiIndexContext = Some ''idx''\<rparr>
   = Inr (JObj [(''indices'',
                 JObj [(''idx'', JObj [(''hierarchicalMenu'', JObj [(''category'', JStr ''a'')])])])],
          JObj [(''indices'',
                 JObj [(''idx'', JObj [(''hierarchicalMenu'', JObj [(''category'', JStr ''a'')])])])])
   \<and> sb_cleanUp
      (JObj [(''indices'', JObj [(''idx'', JObj [(''sortBy'', JStr ''price_asc'')])])])
      \<lparr>mainTargettedIndex = ''index'', multiIndexContext = Some ''idx''\<rparr>
   = Inr (JObj [(''indices'', JObj [(''idx'', JObj [])])])"
  by (simp add: mr_cleanUp_def hm_cleanUp_def sb_cleanUp_def hasMultipleIndex_def getIndex_def
      mr_namespace_def mr_getId_def hm_namespace_def hm_getId_def sb_getId_def at_def
      thenE_def Let_def omit_def castPath_def assign_def)
















text \<open>
  The multi-range connector asks lodash for the entry by a dotted string, which lodash
  splits at every dot. With an attribute name that has a dot in it, such as
  \<open>price.usd\<close>, the entry that \<open>refine\<close> stores is not found again: the stored
  empty string is not read, and the default refinement is.
\<close>

lemma mr_dotted_attribute_reads_default:
  "mr_refine
      \<lparr>attributeName = ''price.usd'', items = [], mr_defaultRefinement = JStr ''1:2'',
       transformItems = None\<rparr>
      (JObj []) (JStr [])
      \<lparr>mainTargettedIndex = ''index'', multiIndexContext = None\<rparr>
    = Inr (JObj [(''multiRange'', JObj [(''price.usd'', JStr [])])])
   \<and> mr_getCurrentRefinement
      \<lparr>attributeName = ''price.usd'', items = [], mr_defaultRefinement = JStr ''1:2'',
       transformItems = None\<rparr>
      (JObj [(''multiRange'', JObj [(''price.usd'', JStr [])])])
      \<lparr>mainTargettedIndex = ''index'', multiIndexContext = None\<rparr>
    = Inr (JStr ''1:2'')"
  by (simp add: mr_refine_def refine_in_def mr_getCurrentRefinement_def mr_refinements_def
      hasMultipleIndex_def getIndex_def mr_namespace_def mr_getId_def has_str_def castPath_def
      thenE_def assign_def)



text \<open>
  Claim C10. In multi-index position the \<open>refine\<close> of the sort-by connector returns a
  state whose \<open>indices\<close> property is exactly
  \<open>{[targettedIndex]: {sortBy: nextRefinement}}\<close>: nothing is kept under another index
  name, and nothing but \<open>sortBy\<close> under the targeted index. Every other top-level
  property of the state is kept.
\<close>

theorem sb_refine_replaces_indices:
  assumes "multiIndexContext cx = Some idx"
  shows "get_prop (sb_refine searchState nextRefinement cx) ''indices''
           = Inr (JObj [(idx, JObj [(''sortBy'', nextRefinement)])])
    \<and> (j \<noteq> idx \<longrightarrow> \<not> has_path (sb_refine searchState nextRefinement cx) [''indices'', j])
    \<and> (ns \<noteq> ''sortBy'' \<longrightarrow>
          \<not> has_path (sb_refine searchState nextRefinement cx) [''indices'', idx, ns])
    \<and> has_path (sb_refine searchState nextRefinement cx) [''indices'', idx, ''sortBy'']
    \<and> (k \<noteq> ''indices'' \<longrightarrow>
          get_prop (sb_refine searchState nextRefinement cx) k
            = get_prop (JObj (own_props searchState)) k)"
  using assms
  by (simp add: sb_refine_def assign_single update_conv' sb_getId_def)

theorem sb_refine_replaces_indices_witness:
  "get_prop
     (sb_refine
        (JObj [(''otherKey'', JStr ''val''),
               (''indices'',
                JObj [(''other'', JObj [(''sortBy'', JStr ''b'')]),
                      (''idx'', JObj [(''multiRange'', JObj [(''price'', JStr ''10:20'')])])])])
        (JStr ''yep'') \<lparr>mainTargettedIndex = ''index'', multiIndexContext = Some ''idx''\<rparr>)
     ''indices''
     = Inr (JObj [(''idx'', JObj [(''sortBy'', JStr ''yep'')])])
   \<and> \<not> has_path
     (sb_refine
        (JObj [(''otherKey'', JStr ''val''),
               (''indices'',
                JObj [(''other'', JObj [(''sortBy'', JStr ''b'')]),
                      (''idx'', JObj [(''multiRange'', JObj [(''price'', JStr ''10:20'')])])])])
        (JStr ''yep'') \<lparr>mainTargettedIndex = ''index'', multiIndexContext = Some ''idx''\<rparr>)
     [''indices'', ''other'']
   \<and> \<not> has_path
     (sb_refine
        (JObj [(''otherKey'', JStr ''val''),
               (''indices'',
                JObj [(''other'', JObj [(''sortBy'', JStr ''b'')]),
                      (''idx'', JObj [(''multiRange'', JObj [(''price'', JStr ''10:20'')])])])])
        (JStr ''yep'') \<lparr>mainTargettedIndex = ''index'', multiIndexContext = Some ''idx''\<rparr>)
     [''indices'', ''idx'', ''multiRange'']"
  using sb_refine_replaces_indices
    [where cx = "\<lparr>mainTargettedIndex = ''index'', multiIndexContext = Some ''idx''\<rparr>"
       and idx = "''idx''" and j = "''other''" and ns = "''multiRange''"
       and nextRefinement = "JStr ''yep''"
       and searchState =
         "JObj [(''otherKey'', JStr ''val''),
                (''indices'',
                 JObj [(''other'', JObj [(''sortBy'', JStr ''b'')]),
                       (''idx'', JObj [(''multiRange'', JObj [(''price'', JStr ''10:20'')])])])]"]
  by simp

subsection \<open>Search parameters\<close>

text \<open>
  Claim C7. When the current refinement decodes to a range, \<open>getSearchParameters\<close> of
  the multi-range connector returns the builder it was given with further calls made on it,
  among which there is a numeric refinement \<open>>=\<close> on the attribute exactly for the decoded
  start when that is truthy, and a numeric refinement \<open><=\<close> exactly for the decoded end
  when that is truthy. A number is truthy when it is neither \<open>0\<close> nor \<open>NaN\<close>: for a
  decoded bound of \<open>0\<close> no refinement with that operator is added at all.
\<close>

theorem mr_getSearchParameters_bounds:
  assumes "mr_getCurrentRefinement props searchState cx = Inr cur"
    and "parseItem_value cur = Inr r"
  shows "\<exists>new. mr_getSearchParameters sp props searchState cx = Inr (sp @ new)
     \<and> (\<forall>v. AddNumericRefinement (attributeName props) ''>='' v \<in> set new
          \<longleftrightarrow> range_start r = v \<and> truthy v)
     \<and> (\<forall>v. AddNumericRefinement (attributeName props) ''<='' v \<in> set new
          \<longleftrightarrow> range_end r = v \<and> truthy v)
     \<and> (\<forall>n. truthy (JNum n) \<longleftrightarrow> n \<noteq> Fin 0 \<and> n \<noteq> NaN)
     \<and> (range_start r = JNum (Fin 0) \<longrightarrow>
          (\<forall>a w. AddNumericRefinement a ''>='' w \<notin> set new))
     \<and> (range_end r = JNum (Fin 0) \<longrightarrow>
          (\<forall>a w. AddNumericRefinement a ''<='' w \<notin> set new))"
  using assms
  by (auto simp: mr_getSearchParameters_def thenE_def addDisjunctiveFacet_def
      addNumericRefinement_def Let_def)

theorem mr_getSearchParameters_bounds_witness:
  "\<exists>new. mr_getSearchParameters []
      \<lparr>attributeName = ''price'', items = [], mr_defaultRefinement = JUndefined,
       transformItems = None\<rparr>
      (JObj [(''multiRange'', JObj [(''price'', JStr ''0:20'')])])
      \<lparr>mainTargettedIndex = ''index'', multiIndexContext = None\<rparr> = Inr new
    \<and> AddNumericRefinement ''price'' ''<='' (JNum (Fin 20)) \<in> set new
    \<and> (\<forall>a w. AddNumericRefinement a ''>='' w \<notin> set new)"
proof -
  let ?cx = "\<lparr>mainTargettedIndex = ''index'', multiIndexContext = None\<rparr>"
  let ?mp = "\<lparr>attributeName = ''price'', items = [], mr_defaultRefinement = JUndefined,
       transformItems = None\<rparr>"
  let ?s = "JObj [(''multiRange'', JObj [(''price'', JStr ''0:20'')])]"
  have h1: "mr_getCurrentRefinement ?mp ?s ?cx = Inr (JStr ''0:20'')"
    by (simp add: mr_getCurrentRefinement_def mr_refinements_def hasMultipleIndex_def
        mr_namespace_def mr_getId_def has_str_def castPath_def mr_subState_def thenE_def)
  have h0: "parseItem ''0:20''
              = Inr \<lparr>range_start = JNum (Fin 0), range_end = JNum (Fin 20)\<rparr>"
    by code_simp
  have h2: "parseItem_value (JStr ''0:20'')
              = Inr \<lparr>range_start = JNum (Fin 0), range_end = JNum (Fin 20)\<rparr>"
    using h0 by simp
  show ?thesis
    using mr_getSearchParameters_bounds [OF h1 h2, of "[]"] by auto
qed

subsection \<open>Provided props\<close>

lemma mi_value_mapItem: "mi_value (mr_mapItem props cur sr idx it) = stringifyItem it"
  by (simp add: mr_mapItem_def Let_def)

lemma filter_value_map:
  "filter (\<lambda>i. mi_value i = []) (map (mr_mapItem props cur sr idx) its)
     = map (mr_mapItem props cur sr idx) (filter (\<lambda>it. stringifyItem it = []) its)"
  by (simp add: filter_map o_def mi_value_mapItem)

lemma list_ex_filter: "list_ex P xs \<longleftrightarrow> filter P xs \<noteq> []"
  by (induction xs) simp_all

text \<open>
  Claim C9, as stated, fails: when two of the supplied items have neither bound, both
  are encoded as the empty string, nothing is appended and nothing is removed, so the
  derived list holds two items with the empty-string value.
\<close>

theorem all_item_duplicated:
  "length (filter (\<lambda>i. mi_value i = [])
     (mr_items
        \<lparr>attributeName = ''price'',
         items = [\<lparr>item_label = JStr ''a'', item_start = JUndefined, item_end = JUndefined\<rparr>,
                  \<lparr>item_label = JStr ''b'', item_start = JUndefined, item_end = JUndefined\<rparr>],
         mr_defaultRefinement = JUndefined, transformItems = None\<rparr>
        (JStr []) \<lparr>sr_results = None\<rparr> ''index'')) = 2"
  by (simp add: mr_items_def mr_mapItem_def stringifyItem_def index_results_def Let_def)

text \<open>
  Claim C9, amended. Let \<open>n\<close> be the number of supplied items that are encoded as the
  empty string (those with neither bound). The list derived by \<open>getProvidedProps\<close>,
  before \<open>transformItems\<close>, holds \<open>n\<close> items with the empty-string value when
  \<open>n > 0\<close> and one when \<open>n = 0\<close>; so it holds exactly one when the supplied items
  have at most one such item. The item labelled \<open>All\<close> is appended to the mapped items
  when \<open>n = 0\<close>, and the mapped items are left as they are otherwise.
\<close>

theorem all_item_presence:
  "(let n = length (filter (\<lambda>it. stringifyItem it = []) (items props));
        its = map (mr_mapItem props cur sr idx) (items props);
        out = mr_items props cur sr idx
    in length (filter (\<lambda>i. mi_value i = []) out) = (if n = 0 then 1 else n)
       \<and> (n \<le> 1 \<longrightarrow> length (filter (\<lambda>i. mi_value i = []) out) = 1)
       \<and> (n = 0 \<longrightarrow> (\<exists>a. out = its @ [a] \<and> mi_value a = [] \<and> mi_label a = JStr ''All''))
       \<and> (n \<noteq> 0 \<longrightarrow> out = its))"
proof (cases "filter (\<lambda>it. stringifyItem it = []) (items props) = []")
  case True
  then show ?thesis
    by (simp add: mr_items_def Let_def list_ex_filter filter_value_map)
next
  case False
  then have "length (filter (\<lambda>it. stringifyItem it = []) (items props)) \<noteq> 0"
    by simp
  with False show ?thesis
    by (auto simp: mr_items_def Let_def list_ex_filter filter_value_map le_Suc_eq)
qed

theorem all_item_presence_witness:
  "length (filter (\<lambda>i. mi_value i = [])
     (mr_items
        \<lparr>attributeName = ''price'',
         items = [\<lparr>item_label = JStr ''a'', item_start = JNum (Fin 1), item_end = JUndefined\<rparr>],
         mr_defaultRefinement = JUndefined, transformItems = None\<rparr>
        (JStr []) \<lparr>sr_results = None\<rparr> ''index'')) = 1"
  using all_item_presence
    [of "\<lparr>attributeName = ''price'',
         items = [\<lparr>item_label = JStr ''a'', item_start = JNum (Fin 1), item_end = JUndefined\<rparr>],
         mr_defaultRefinement = JUndefined, transformItems = None\<rparr>"
        "JStr []" "\<lparr>sr_results = None\<rparr>" "''index''"]
  by (simp add: Let_def stringifyItem_empty)


subsection \<open>The toggle engine\<close>

lemma map_of_assign_single:
  "map_of (assign kvs [(k, v)]) k' = (if k' = k then Some v else map_of kvs k')"
  by (simp add: assign_def update_conv')

lemma refine_in_single_read:
  assumes "\<not> hasMultipleIndex cx" and "refine_in ns [(k, v)] st cx = Inr s'"
  shows "has_path s' [ns, k] \<and> thenE (get_prop s' ns) (\<lambda>sub. get_prop sub k) = Inr v"
  using assms
  by (auto simp: refine_in_def thenE_def Let_def map_of_assign_single split: sum.splits)

lemma refine_in_multi_read:
  assumes "hasMultipleIndex cx" and "refine_in ns [(k, v)] st cx = Inr s'"
  shows "has_path s' [''indices'', getIndex cx, ns, k]
    \<and> thenE (get_prop s' ''indices'') (\<lambda>indices.
        thenE (get_prop indices (getIndex cx)) (\<lambda>ix.
        thenE (get_prop ix ns) (\<lambda>sub. get_prop sub k))) = Inr v"
  using assms
  by (auto simp: refine_in_def thenE_def Let_def map_of_assign_single
      split: sum.splits if_splits)

lemma hm_refine_returns:
  assumes "hm_refinements props st cx"
  shows "\<exists>s'. hm_refine props st v cx = Inr s'"
  using assms
  by (auto simp: hm_refinements_def hm_refine_def refine_in_def thenE_def Let_def
      split: jsval.splits option.splits)

lemma hm_refine_reads:
  assumes "hm_refine props st v cx = Inr s'"
  shows "hm_getCurrentRefinement props s' cx = Inr (if truthy v then v else JNull)"
proof (cases "hasMultipleIndex cx")
  case True
  from refine_in_multi_read [OF True assms [unfolded hm_refine_def]]
  show ?thesis using True
    by (auto simp: hm_getCurrentRefinement_def hm_refinements_def hm_subState_def thenE_def
        split: sum.splits)
next
  case False
  from refine_in_single_read [OF False assms [unfolded hm_refine_def]]
  show ?thesis using False
    by (auto simp: hm_getCurrentRefinement_def hm_refinements_def hm_subState_def thenE_def
        split: sum.splits)
qed

text \<open>What \<open>getValue\<close> gives for a path when the current refinement is the path
  \<open>c\<close>: one level up from the clicked path when that is \<open>c\<close> or an ancestor of
  \<open>c\<close>, and the clicked path otherwise.\<close>

lemma getValue_on_path:
  assumes "hm_getCurrentRefinement props st cx = Inr (JStr c)"
  shows "getValue path props st cx =
     Inr (let sep = to_string (if truthy (separator props) then separator props
                               else JStr '' > '')
          in if c = path \<or> occurs_at (path @ sep) c 0
             then (case lastIndexOf path sep of
                     None \<Rightarrow> JUndefined
                   | Some i \<Rightarrow> JStr (take i path))
             else JStr path)"
  using assms
  by (simp add: getValue_def thenE_def toggleHierarchicalFacetRefinement_def
      getHierarchicalRefinement_def getHierarchicalFacetSeparator_def at_def Let_def
      split: option.splits)

lemma lastIndexOf_None_iff: "lastIndexOf s sep = None \<longleftrightarrow> (\<nexists>a b. s = a @ sep @ b)"
proof
  assume n: "lastIndexOf s sep = None"
  show "\<nexists>a b. s = a @ sep @ b"
  proof
    assume "\<exists>a b. s = a @ sep @ b"
    then obtain a b where s: "s = a @ sep @ b" by blast
    then have "occurs_at sep s (length a)" and "length a \<in> set (rev [0..<Suc (length s)])"
      by (auto simp: occurs_at_def)
    then have "filter (occurs_at sep s) (rev [0..<Suc (length s)]) \<noteq> []"
      by (metis filter_empty_conv)
    with n show False by (simp add: lastIndexOf_def split: list.splits)
  qed
next
  assume a: "\<nexists>a b. s = a @ sep @ b"
  have "\<not> occurs_at sep s i" for i
  proof
    assume "occurs_at sep s i"
    then have "s = take i s @ sep @ drop (length sep) (drop i s)"
      unfolding occurs_at_def by (metis append_take_drop_id)
    with a show False by blast
  qed
  then show "lastIndexOf s sep = None"
    by (simp add: lastIndexOf_def)
qed

lemma lastIndexOf_Some:
  assumes "lastIndexOf s sep = Some i"
  shows "(\<exists>b. s = take i s @ sep @ b)
    \<and> (\<forall>j. i < j \<and> j \<le> length s \<longrightarrow> \<not> occurs_at sep s j)"
proof -
  let ?P = "occurs_at sep s"
  define xs where "xs = [0..<Suc (length s)]"
  have srt: "sorted xs" and mem: "\<And>j. j \<in> set xs \<longleftrightarrow> j \<le> length s"
    by (auto simp: xs_def simp del: upt_Suc)
  from assms obtain r where r: "filter ?P (rev xs) = i # r"
    unfolding lastIndexOf_def xs_def [symmetric] by (cases "filter ?P (rev xs)") auto
  then have "i \<in> set (filter ?P (rev xs))"
    by (metis list.set_intros(1))
  then have "?P i"
    by (simp only: set_filter mem_Collect_eq)
  then have a: "\<exists>b. s = take i s @ sep @ b"
    unfolding occurs_at_def by (metis append_take_drop_id)
  from r have f: "filter ?P xs = rev r @ [i]"
    by (metis rev_filter rev_rev_ident rev.simps(2))
  have "sorted (filter ?P xs)"
    using srt by (rule sorted_wrt_filter)
  with f have srt': "sorted (rev r @ [i])" by simp
  have b: "\<not> ?P j" if "i < j \<and> j \<le> length s" for j
  proof
    assume "?P j"
    with that mem have "j \<in> set (filter ?P xs)" by simp
    with f have "j \<in> set (rev r @ [i])" by simp
    with srt' have "j \<le> i" by (auto simp: sorted_append)
    with that show False by simp
  qed
  from a b show ?thesis by blast
qed

text \<open>
  Claim C2, as stated, fails for a nested path: with the current refinement \<open>a > b\<close>,
  the derived value of the node \<open>a > b\<close> is its parent \<open>a\<close>, not \<open>null\<close>; passed
  to \<open>refine\<close> it is stored, and the menu then reads \<open>a\<close>, not the root.
\<close>

theorem toggle_self_click_nested_moves_to_parent:
  "getValue ''a > b''
      \<lparr>hm_id = JUndefined, attributes = [''category''], separator = JStr '' > '',
       rootPath = JNull, showParentLevel = JBool True, hm_defaultRefinement = JUndefined\<rparr>
      (JObj [(''hierarchicalMenu'', JObj [(''category'', JStr ''a > b'')])])
      \<lparr>mainTargettedIndex = ''index'', multiIndexContext = None\<rparr>
     = Inr (JStr ''a'')
   \<and> hm_refine
      \<lparr>hm_id = JUndefined, attributes = [''category''], separator = JStr '' > '',
       rootPath = JNull, showParentLevel = JBool True, hm_defaultRefinement = JUndefined\<rparr>
      (JObj [(''hierarchicalMenu'', JObj [(''category'', JStr ''a > b'')])])
      (JStr ''a'')
      \<lparr>mainTargettedIndex = ''index'', multiIndexContext = None\<rparr>
     = Inr (JObj [(''hierarchicalMenu'', JObj [(''category'', JStr ''a'')])])
   \<and> hm_getCurrentRefinement
      \<lparr>hm_id = JUndefined, attributes = [''category''], separator = JStr '' > '',
       rootPath = JNull, showParentLevel = JBool True, hm_defaultRefinement = JUndefined\<rparr>
      (JObj [(''hierarchicalMenu'', JObj [(''category'', JStr ''a'')])])
      \<lparr>mainTargettedIndex = ''index'', multiIndexContext = None\<rparr>
     = Inr (JStr ''a'')"
proof -
  have l: "lastIndexOf ''a > b'' '' > '' = Some 1"
    by code_simp
  show ?thesis
    by (simp add: getValue_def hm_getCurrentRefinement_def hm_refinements_def hm_subState_def
        hm_refine_def refine_in_def hasMultipleIndex_def hm_namespace_def hm_getId_def at_def
        thenE_def toggleHierarchicalFacetRefinement_def getHierarchicalRefinement_def
        getHierarchicalFacetSeparator_def assign_def l)
qed

text \<open>
  Claim C2, amended. When the current refinement is a path \<open>p\<close>, a click on \<open>p\<close>
  itself moves one level up. The derived value of the node \<open>p\<close> is the parent of
  \<open>p\<close>, that is \<open>p\<close> cut before the last occurrence of the separator, when \<open>p\<close>
  contains the separator; it is the absent value, \<open>undefined\<close>, only when \<open>p\<close> is a
  top-level path that does not contain the separator. The separator is the one of the
  props, or \<open> > \<close> when the props have none. \<open>refine\<close> stores the same for
  \<open>undefined\<close> and for \<open>null\<close>; the state it returns reads back as the value it was
  given when that is truthy and as \<open>null\<close>, the unrefined root, otherwise; and it does
  return a state when the current refinement is stored in the search state.
\<close>

theorem toggle_self_click:
  assumes "hm_getCurrentRefinement props st cx = Inr (JStr p)"
  shows "(let sep = to_string (if truthy (separator props) then separator props
                               else JStr '' > '')
          in getValue p props st cx
               = Inr (case lastIndexOf p sep of
                        None \<Rightarrow> JUndefined
                      | Some i \<Rightarrow> JStr (take i p))
             \<and> ((\<nexists>a b. p = a @ sep @ b) \<longrightarrow> getValue p props st cx = Inr JUndefined)
             \<and> ((\<exists>a b. p = a @ sep @ b) \<longrightarrow>
                  (\<exists>i b. getValue p props st cx = Inr (JStr (take i p))
                         \<and> p = take i p @ sep @ b
                         \<and> (\<forall>j. i < j \<and> j \<le> length p \<longrightarrow> \<not> occurs_at sep p j))))
    \<and> hm_refine props st JUndefined cx = hm_refine props st JNull cx
    \<and> (\<forall>v s'. hm_refine props st v cx = Inr s' \<longrightarrow>
          hm_getCurrentRefinement props s' cx = Inr (if truthy v then v else JNull))
    \<and> (hm_refinements props st cx \<longrightarrow> (\<forall>v. \<exists>s'. hm_refine props st v cx = Inr s'))"
proof -
  define sep where "sep = to_string (if truthy (separator props) then separator props
                                     else JStr '' > '')"
  have g: "getValue p props st cx
             = Inr (case lastIndexOf p sep of None \<Rightarrow> JUndefined | Some i \<Rightarrow> JStr (take i p))"
    using getValue_on_path [OF assms, of p] by (simp add: sep_def Let_def)
  have n: "getValue p props st cx = Inr JUndefined" if "\<nexists>a b. p = a @ sep @ b"
    using that g lastIndexOf_None_iff [of p sep] by simp
  have s: "\<exists>i b. getValue p props st cx = Inr (JStr (take i p)) \<and> p = take i p @ sep @ b
             \<and> (\<forall>j. i < j \<and> j \<le> length p \<longrightarrow> \<not> occurs_at sep p j)"
    if "\<exists>a b. p = a @ sep @ b"
  proof -
    from that lastIndexOf_None_iff [of p sep] obtain i where i: "lastIndexOf p sep = Some i"
      by auto
    from lastIndexOf_Some [OF i] g i show ?thesis by auto
  qed
  have b: "hm_refine props st JUndefined cx = hm_refine props st JNull cx"
    by (simp add: hm_refine_def)
  from g n s b hm_refine_reads hm_refine_returns show ?thesis
    unfolding Let_def sep_def [symmetric] by blast
qed

theorem toggle_self_click_witness:
  "getValue ''a''
      \<lparr>hm_id = JUndefined, attributes = [''category''], separator = JStr '' > '',
       rootPath = JNull, showParentLevel = JBool True, hm_defaultRefinement = JUndefined\<rparr>
      (JObj [(''hierarchicalMenu'', JObj [(''category'', JStr ''a'')])])
      \<lparr>mainTargettedIndex = ''index'', multiIndexContext = None\<rparr>
     = Inr JUndefined
   \<and> getValue ''a > b > c''
      \<lparr>hm_id = JUndefined, attributes = [''category''], separator = JStr '' > '',
       rootPath = JNull, showParentLevel = JBool True, hm_defaultRefinement = JUndefined\<rparr>
      (JObj [(''hierarchicalMenu'', JObj [(''category'', JStr ''a > b > c'')])])
      \<lparr>mainTargettedIndex = ''index'', multiIndexContext = None\<rparr>
     = Inr (JStr ''a > b'')
   \<and> (\<exists>s'. hm_refine
      \<lparr>hm_id = JUndefined, attributes = [''category''], separator = JStr '' > '',
       rootPath = JNull, showParentLevel = JBool True, hm_defaultRefinement = JUndefined\<rparr>
      (JObj [(''hierarchicalMenu'', JObj [(''category'', JStr ''a'')])])
      JUndefined
      \<lparr>mainTargettedIndex = ''index'', multiIndexContext = None\<rparr> = Inr s'
     \<and> hm_getCurrentRefinement
      \<lparr>hm_id = JUndefined, attributes = [''category''], separator = JStr '' > '',
       rootPath = JNull, showParentLevel = JBool True, hm_defaultRefinement = JUndefined\<rparr>
      s' \<lparr>mainTargettedIndex = ''index'', multiIndexContext = None\<rparr> = Inr JNull)"
proof -
  let ?cx = "\<lparr>mainTargettedIndex = ''index'', multiIndexContext = None\<rparr>"
  let ?hp = "\<lparr>hm_id = JUndefined, attributes = [''category''], separator = JStr '' > '',
       rootPath = JNull, showParentLevel = JBool True, hm_defaultRefinement = JUndefined\<rparr>"
  let ?s = "JObj [(''hierarchicalMenu'', JObj [(''category'', JStr ''a'')])]"
  have r: "hm_refinements ?hp ?s ?cx"
    by (simp add: hm_refinements_def hasMultipleIndex_def hm_namespace_def hm_getId_def at_def)
  have h: "hm_getCurrentRefinement ?hp ?s ?cx = Inr (JStr ''a'')"
    by (simp add: hm_getCurrentRefinement_def r hm_subState_def hasMultipleIndex_def
        hm_namespace_def hm_getId_def at_def thenE_def)
  have l: "lastIndexOf ''a'' '' > '' = None"
    by code_simp
  note t = toggle_self_click [OF h, unfolded Let_def]
  from t l have g: "getValue ''a'' ?hp ?s ?cx = Inr JUndefined"
    by simp
  from t r obtain s' where s': "hm_refine ?hp ?s JUndefined ?cx = Inr s'"
    by blast
  from t have "hm_refine ?hp ?s JUndefined ?cx = Inr s' \<longrightarrow>
      hm_getCurrentRefinement ?hp s' ?cx = Inr (if truthy JUndefined then JUndefined else JNull)"
    by blast
  with s' have "hm_getCurrentRefinement ?hp s' ?cx = Inr JNull"
    by simp
  let ?s2 = "JObj [(''hierarchicalMenu'', JObj [(''category'', JStr ''a > b > c'')])]"
  have r2: "hm_refinements ?hp ?s2 ?cx"
    by (simp add: hm_refinements_def hasMultipleIndex_def hm_namespace_def hm_getId_def at_def)
  have h2: "hm_getCurrentRefinement ?hp ?s2 ?cx = Inr (JStr ''a > b > c'')"
    by (simp add: hm_getCurrentRefinement_def r2 hm_subState_def hasMultipleIndex_def
        hm_namespace_def hm_getId_def at_def thenE_def)
  have l2: "lastIndexOf ''a > b > c'' '' > '' = Some 5"
    by code_simp
  from toggle_self_click [OF h2, unfolded Let_def] l2
  have g2: "getValue ''a > b > c'' ?hp ?s2 ?cx = Inr (JStr ''a > b'')"
    by simp
  from g g2 s' \<open>hm_getCurrentRefinement ?hp s' ?cx = Inr JNull\<close> show ?thesis by blast
qed


end
